theory Spec2Isabelle
  imports Main "HOL-Library.Word"
begin

section \<open>Position and length arithmetic of the runtime (src/runtime/length.h)\<close>

text \<open>
  The header works on two plain C structs, \<^verbatim>\<open>TSLength\<close> and \<^verbatim>\<open>TSPoint\<close>. Their
  declarations live in \<^verbatim>\<open>tree_sitter/runtime.h\<close>; the header itself only shows that
  the fields are filled from \<^verbatim>\<open>size_t\<close> values (see \<^verbatim>\<open>ts_length_make\<close>,
  \<^verbatim>\<open>ts_point_make\<close> and the locals of \<^verbatim>\<open>ts_point_add\<close>). The fields are therefore
  unsigned machine words whose width \<open>'a\<close> is a parameter of the development: \<open>+\<close> and
  \<open>-\<close> on \<open>'a word\<close> wrap modulo \<open>2 ^ LENGTH('a)\<close>, as unsigned arithmetic in C does.
  Concrete evaluations are done at 64 bits.
\<close>

subsection \<open>Data\<close>

record (overloaded) ('a::len) TSLength =
  bytes :: "'a word"
  chars :: "'a word"

record (overloaded) ('a::len) TSPoint =
  line :: "'a word"
  column :: "'a word"

subsection \<open>Operations, in the order of the header\<close>

definition ts_length_add :: "'a::len TSLength \<Rightarrow> 'a TSLength \<Rightarrow> 'a TSLength" where
  "ts_length_add len1 len2 =
     (let result = \<lparr>bytes = bytes len1 + bytes len2, chars = chars len1 + chars len2\<rparr>
      in if (chars len1 > 0 \<and> bytes len1 = 0) \<or> (chars len2 > 0 \<and> bytes len2 = 0)
         then result\<lparr>bytes := 0\<rparr>
         else result)"

definition ts_length_sub :: "'a::len TSLength \<Rightarrow> 'a TSLength \<Rightarrow> 'a TSLength" where
  "ts_length_sub len1 len2 =
     (let result = \<lparr>bytes = bytes len1 - bytes len2, chars = chars len1 - chars len2\<rparr>
      in if (chars len1 > 0 \<and> bytes len1 = 0) \<or> (chars len2 > 0 \<and> bytes len2 = 0)
         then result\<lparr>bytes := 0\<rparr>
         else result)"

definition ts_point_add :: "'a::len TSPoint \<Rightarrow> 'a TSPoint \<Rightarrow> 'a TSPoint" where
  "ts_point_add point1 point2 =
     (let line' = line point1 + line point2;
          column' = (if line point2 = 0
                     then column point1 + column point2
                     else column point2)
      in \<lparr>line = line', column = column'\<rparr>)"

definition ts_point_sub :: "'a::len TSPoint \<Rightarrow> 'a TSPoint \<Rightarrow> 'a TSPoint" where
  "ts_point_sub point1 point2 =
     (if line point1 = line point2
      then \<lparr>line = 0, column = column point1 - column point2\<rparr>
      else \<lparr>line = line point1 - line point2, column = column point1\<rparr>)"

definition ts_length_zero :: "'a::len TSLength" where
  "ts_length_zero = \<lparr>bytes = 0, chars = 0\<rparr>"

definition ts_length_eq :: "'a::len TSLength \<Rightarrow> 'a TSLength \<Rightarrow> bool" where
  "ts_length_eq len1 len2 \<longleftrightarrow> bytes len1 = bytes len2 \<and> chars len1 = chars len2"

definition ts_point_zero :: "'a::len TSPoint" where
  "ts_point_zero = \<lparr>line = 1, column = 1\<rparr>"

definition ts_point_make :: "'a::len word \<Rightarrow> 'a word \<Rightarrow> 'a TSPoint" where
  "ts_point_make l c = \<lparr>line = l, column = c\<rparr>"

definition ts_length_make :: "'a::len word \<Rightarrow> 'a word \<Rightarrow> 'a TSLength" where
  "ts_length_make b c = \<lparr>bytes = b, chars = c\<rparr>"

subsection \<open>Vocabulary of the specification\<close>

text \<open>
  The header never names the condition it tests in \<^verbatim>\<open>ts_length_add\<close> and
  \<^verbatim>\<open>ts_length_sub\<close>; the specification calls a length with \<open>chars > 0\<close> and
  \<open>bytes = 0\<close> \<^emph>\<open>indeterminate\<close>, and calls \<open>bytes \<ge> chars\<close> the normal invariant.
  Both are predicates on values, used only to state properties.
\<close>

definition indeterminate :: "'a::len TSLength \<Rightarrow> bool" where
  "indeterminate len \<longleftrightarrow> chars len > 0 \<and> bytes len = 0"

definition bytes_ge_chars :: "'a::len TSLength \<Rightarrow> bool" where
  "bytes_ge_chars len \<longleftrightarrow> chars len \<le> bytes len"

section \<open>Helper facts\<close>

lemma ts_length_add_sel:
  "chars (ts_length_add a b) = chars a + chars b"
  "bytes (ts_length_add a b) =
     (if indeterminate a \<or> indeterminate b then 0 else bytes a + bytes b)"
  by (simp_all add: ts_length_add_def indeterminate_def Let_def)

lemma ts_length_sub_sel:
  "chars (ts_length_sub a b) = chars a - chars b"
  "bytes (ts_length_sub a b) =
     (if indeterminate a \<or> indeterminate b then 0 else bytes a - bytes b)"
  by (simp_all add: ts_length_sub_def indeterminate_def Let_def)

lemma ts_length_eq_iff: "ts_length_eq a b \<longleftrightarrow> a = b"
  by (cases a, cases b) (simp add: ts_length_eq_def)

lemma word_pos_iff: "0 < w \<longleftrightarrow> w \<noteq> 0" for w :: "'a::len word"
  by (simp add: word_neq_0_conv)

section \<open>Properties\<close>

text \<open>
  C1. Poisoning by an indeterminate operand: whenever \<open>a\<close> or \<open>b\<close> is indeterminate,
  both \<open>ts_length_add a b\<close> and \<open>ts_length_sub a b\<close> have a \<open>bytes\<close> field of 0, while
  their \<open>chars\<close> field is the machine sum, respectively the machine difference, of the
  operands' \<open>chars\<close> fields.
\<close>

theorem length_poisoning:
  assumes "indeterminate a \<or> indeterminate b"
  shows "bytes (ts_length_add a b) = 0
       \<and> chars (ts_length_add a b) = chars a + chars b
       \<and> bytes (ts_length_sub a b) = 0
       \<and> chars (ts_length_sub a b) = chars a - chars b"
  using assms by (simp add: ts_length_add_sel ts_length_sub_sel)

text \<open>
  The specification's own example at 64 bits: \<open>a = (bytes 0, chars 5)\<close> is
  indeterminate and \<open>b = (bytes 10, chars 3)\<close> is not; \<open>add a b = (0, 8)\<close>, and
  \<open>sub b a\<close> has \<open>bytes = 0\<close> and \<open>chars = 3 - 5\<close> wrapped to \<open>2 ^ 64 - 2\<close>.
\<close>

theorem length_poisoning_witness:
  "indeterminate (ts_length_make 0 5 :: 64 TSLength)
   \<and> \<not> indeterminate (ts_length_make 10 3 :: 64 TSLength)
   \<and> ts_length_add (ts_length_make 0 5) (ts_length_make 10 3)
       = (ts_length_make 0 8 :: 64 TSLength)
   \<and> ts_length_sub (ts_length_make 10 3) (ts_length_make 0 5)
       = (ts_length_make 0 18446744073709551614 :: 64 TSLength)"
proof -
  let ?a = "ts_length_make 0 5 :: 64 TSLength"
  let ?b = "ts_length_make 10 3 :: 64 TSLength"
  have ia: "indeterminate ?a" and ib: "\<not> indeterminate ?b"
    by (simp_all add: indeterminate_def ts_length_make_def)
  from ia have h1: "indeterminate ?a \<or> indeterminate ?b" ..
  from ia have h2: "indeterminate ?b \<or> indeterminate ?a" ..
  have add: "ts_length_add ?a ?b = ts_length_make 0 8"
    using length_poisoning [OF h1] by (simp add: ts_length_make_def)
  have sub: "ts_length_sub ?b ?a = ts_length_make 0 18446744073709551614"
    using length_poisoning [OF h2] by (simp add: ts_length_make_def)
  from ia ib add sub show ?thesis by simp
qed

text \<open>
  C2. Point addition branches on the displacement's line: when \<open>line p2 = 0\<close> the result
  keeps \<open>p1\<close>'s line and adds the columns; when \<open>line p2 > 0\<close> the lines are added and
  the column is \<open>p2\<close>'s alone, \<open>p1\<close>'s column being dropped.
\<close>

theorem point_add_branching:
  "(line p2 = 0 \<longrightarrow>
      ts_point_add p1 p2 = \<lparr>line = line p1, column = column p1 + column p2\<rparr>)
   \<and> (line p2 > 0 \<longrightarrow>
      ts_point_add p1 p2 = \<lparr>line = line p1 + line p2, column = column p2\<rparr>)"
  by (simp add: ts_point_add_def Let_def word_pos_iff)

text \<open>
  Both branches on the specification's examples: \<open>add (2,5) (0,3) = (2,8)\<close> and
  \<open>add (2,5) (1,3) = (3,3)\<close>.
\<close>

theorem point_add_branching_witness:
  "line (ts_point_make 0 3 :: 64 TSPoint) = 0
   \<and> ts_point_add (ts_point_make 2 5) (ts_point_make 0 3) = (ts_point_make 2 8 :: 64 TSPoint)
   \<and> line (ts_point_make 1 3 :: 64 TSPoint) > 0
   \<and> ts_point_add (ts_point_make 2 5) (ts_point_make 1 3) = (ts_point_make 3 3 :: 64 TSPoint)"
proof -
  let ?p = "ts_point_make 2 5 :: 64 TSPoint"
  have same: "line (ts_point_make 0 3 :: 64 TSPoint) = 0"
    and cross: "line (ts_point_make 1 3 :: 64 TSPoint) > 0"
    by (simp_all add: ts_point_make_def)
  have r1: "ts_point_add ?p (ts_point_make 0 3) = ts_point_make 2 8"
    using point_add_branching [of "ts_point_make 0 3" ?p] same
    by (simp add: ts_point_make_def)
  have r2: "ts_point_add ?p (ts_point_make 1 3) = ts_point_make 3 3"
    using point_add_branching [of "ts_point_make 1 3" ?p] cross
    by (simp add: ts_point_make_def)
  from same cross r1 r2 show ?thesis by simp
qed

text \<open>
  C3. Point subtraction branches on whether the lines agree: on the same line the result
  is \<open>(0, column p1 - column p2)\<close>; otherwise it is \<open>(line p1 - line p2, column p1)\<close>,
  with \<open>p1\<close>'s column copied and not differenced.
\<close>

theorem point_sub_branching:
  "(line p1 = line p2 \<longrightarrow>
      ts_point_sub p1 p2 = \<lparr>line = 0, column = column p1 - column p2\<rparr>)
   \<and> (line p1 \<noteq> line p2 \<longrightarrow>
      ts_point_sub p1 p2 = \<lparr>line = line p1 - line p2, column = column p1\<rparr>)"
  by (simp add: ts_point_sub_def)

text \<open>
  Both branches on the specification's examples: \<open>sub (4,10) (4,3) = (0,7)\<close> and
  \<open>sub (4,10) (2,3) = (2,10)\<close>.
\<close>

theorem point_sub_branching_witness:
  "line (ts_point_make 4 10 :: 64 TSPoint) = line (ts_point_make 4 3 :: 64 TSPoint)
   \<and> ts_point_sub (ts_point_make 4 10) (ts_point_make 4 3) = (ts_point_make 0 7 :: 64 TSPoint)
   \<and> line (ts_point_make 4 10 :: 64 TSPoint) \<noteq> line (ts_point_make 2 3 :: 64 TSPoint)
   \<and> ts_point_sub (ts_point_make 4 10) (ts_point_make 2 3) = (ts_point_make 2 10 :: 64 TSPoint)"
proof -
  let ?p = "ts_point_make 4 10 :: 64 TSPoint"
  have same: "line ?p = line (ts_point_make 4 3 :: 64 TSPoint)"
    and differ: "line ?p \<noteq> line (ts_point_make 2 3 :: 64 TSPoint)"
    by (simp_all add: ts_point_make_def)
  have r1: "ts_point_sub ?p (ts_point_make 4 3) = ts_point_make 0 7"
    using point_sub_branching [of ?p "ts_point_make 4 3"] same
    by (simp add: ts_point_make_def)
  have r2: "ts_point_sub ?p (ts_point_make 2 3) = ts_point_make 2 10"
    using point_sub_branching [of ?p "ts_point_make 2 3"] differ
    by (simp add: ts_point_make_def)
  from same differ r1 r2 show ?thesis by simp
qed

text \<open>
  C4. \<open>ts_length_zero\<close> is an identity for both operations: for every length \<open>a\<close>,
  indeterminate ones included, \<open>ts_length_add a ts_length_zero = a\<close> and
  \<open>ts_length_sub a ts_length_zero = a\<close>. Zero has \<open>chars = 0\<close>, so it never triggers the
  reset of \<open>bytes\<close> itself, and when \<open>a\<close> is indeterminate the reset writes the 0 that
  \<open>bytes a\<close> already holds. For the commutative \<open>ts_length_add\<close> zero is neutral on the
  left as well.
\<close>

theorem length_zero_identity:
  "ts_length_add a ts_length_zero = a
   \<and> ts_length_sub a ts_length_zero = a
   \<and> ts_length_add ts_length_zero a = a"
proof -
  have right_add: "ts_length_add a ts_length_zero = a"
    by (cases a) (simp add: ts_length_add_def ts_length_zero_def Let_def)
  have right_sub: "ts_length_sub a ts_length_zero = a"
    by (cases a) (simp add: ts_length_sub_def ts_length_zero_def Let_def)
  have left_add: "ts_length_add ts_length_zero a = a"
    by (cases a) (simp add: ts_length_add_def ts_length_zero_def Let_def)
  from right_add right_sub left_add show ?thesis by simp
qed

text \<open>
  C5 (as amended). Let \<open>a\<close> and \<open>b\<close> satisfy \<open>bytes \<ge> chars\<close> and be non-indeterminate.
  If the byte sum does not overflow the word, \<open>ts_length_add a b\<close> satisfies
  \<open>bytes \<ge> chars\<close>. If \<open>a \<ge> b\<close> component-wise, \<open>ts_length_sub a b\<close> satisfies
  \<open>bytes \<ge> chars\<close> exactly when the byte difference is at least the character
  difference.
\<close>

theorem length_invariant_amended:
  fixes a b :: "'a::len TSLength"
  assumes "bytes_ge_chars a" and "\<not> indeterminate a"
    and "bytes_ge_chars b" and "\<not> indeterminate b"
  shows "(unat (bytes a) + unat (bytes b) < 2 ^ LENGTH('a) \<longrightarrow>
            bytes_ge_chars (ts_length_add a b))
       \<and> (bytes b \<le> bytes a \<and> chars b \<le> chars a \<longrightarrow>
            (bytes_ge_chars (ts_length_sub a b) \<longleftrightarrow>
               unat (chars a) - unat (chars b) \<le> unat (bytes a) - unat (bytes b)))"
proof (intro conjI impI)
  assume no: "unat (bytes a) + unat (bytes b) < 2 ^ LENGTH('a)"
  have ca: "unat (chars a) \<le> unat (bytes a)" and cb: "unat (chars b) \<le> unat (bytes b)"
    using assms by (simp_all add: bytes_ge_chars_def word_le_nat_alt)
  have sb: "unat (bytes a + bytes b) = unat (bytes a) + unat (bytes b)"
    using no by (simp add: unat_add_lem)
  have "unat (chars a) + unat (chars b) < 2 ^ LENGTH('a)"
    using ca cb no by linarith
  then have sc: "unat (chars a + chars b) = unat (chars a) + unat (chars b)"
    by (simp add: unat_add_lem)
  show "bytes_ge_chars (ts_length_add a b)"
    using assms(2,4) ca cb sb sc
    by (simp add: bytes_ge_chars_def ts_length_add_sel word_le_nat_alt)
next
  assume "bytes b \<le> bytes a \<and> chars b \<le> chars a"
  then show "bytes_ge_chars (ts_length_sub a b) \<longleftrightarrow>
      unat (chars a) - unat (chars b) \<le> unat (bytes a) - unat (bytes b)"
    using assms(2,4)
    by (simp add: bytes_ge_chars_def ts_length_sub_sel word_le_nat_alt unat_sub)
qed

text \<open>
  At 64 bits with \<open>a = (10, 5)\<close> and \<open>b = (7, 3)\<close>: every hypothesis holds, and both
  \<open>add a b\<close> and \<open>sub a b\<close> satisfy \<open>bytes \<ge> chars\<close>.
\<close>

theorem length_invariant_amended_witness:
  "bytes_ge_chars (ts_length_make 10 5 :: 64 TSLength)
   \<and> \<not> indeterminate (ts_length_make 10 5 :: 64 TSLength)
   \<and> bytes_ge_chars (ts_length_make 7 3 :: 64 TSLength)
   \<and> \<not> indeterminate (ts_length_make 7 3 :: 64 TSLength)
   \<and> unat (bytes (ts_length_make 10 5 :: 64 TSLength))
       + unat (bytes (ts_length_make 7 3 :: 64 TSLength)) < 2 ^ 64
   \<and> bytes (ts_length_make 7 3 :: 64 TSLength) \<le> bytes (ts_length_make 10 5 :: 64 TSLength)
   \<and> chars (ts_length_make 7 3 :: 64 TSLength) \<le> chars (ts_length_make 10 5 :: 64 TSLength)
   \<and> bytes_ge_chars (ts_length_add (ts_length_make 10 5) (ts_length_make 7 3) :: 64 TSLength)
   \<and> bytes_ge_chars (ts_length_sub (ts_length_make 10 5) (ts_length_make 7 3) :: 64 TSLength)"
proof -
  let ?a = "ts_length_make 10 5 :: 64 TSLength"
  let ?b = "ts_length_make 7 3 :: 64 TSLength"
  have oka: "bytes_ge_chars ?a" and na: "\<not> indeterminate ?a"
    and okb: "bytes_ge_chars ?b" and nb: "\<not> indeterminate ?b"
    by (simp_all add: bytes_ge_chars_def indeterminate_def ts_length_make_def)
  have no: "unat (bytes ?a) + unat (bytes ?b) < 2 ^ 64"
    by (simp add: ts_length_make_def)
  have ge: "bytes ?b \<le> bytes ?a" "chars ?b \<le> chars ?a"
    by (simp_all add: ts_length_make_def)
  have diff: "unat (chars ?a) - unat (chars ?b) \<le> unat (bytes ?a) - unat (bytes ?b)"
    by (simp add: ts_length_make_def)
  note inv = length_invariant_amended [OF oka na okb nb]
  have r1: "bytes_ge_chars (ts_length_add ?a ?b)"
    using inv no by simp
  have r2: "bytes_ge_chars (ts_length_sub ?a ?b)"
    using inv ge diff by simp
  from oka na okb nb no ge r1 r2 show ?thesis by simp
qed

text \<open>
  The claim as written fails in both halves at 64 bits. For subtraction no wrap-around is
  needed: \<open>a = (5, 5)\<close> and \<open>b = (5, 3)\<close> satisfy every hypothesis, and
  \<open>sub a b = (0, 2)\<close>. For addition the byte sum wraps: \<open>(2 ^ 64 - 1, 1)\<close> plus
  \<open>(1, 1)\<close> is \<open>(0, 2)\<close>.
\<close>

theorem length_invariant_counterexample:
  "bytes_ge_chars (ts_length_make 5 5 :: 64 TSLength)
   \<and> \<not> indeterminate (ts_length_make 5 5 :: 64 TSLength)
   \<and> bytes_ge_chars (ts_length_make 5 3 :: 64 TSLength)
   \<and> \<not> indeterminate (ts_length_make 5 3 :: 64 TSLength)
   \<and> bytes (ts_length_make 5 3 :: 64 TSLength) \<le> bytes (ts_length_make 5 5 :: 64 TSLength)
   \<and> chars (ts_length_make 5 3 :: 64 TSLength) \<le> chars (ts_length_make 5 5 :: 64 TSLength)
   \<and> ts_length_sub (ts_length_make 5 5) (ts_length_make 5 3)
       = (ts_length_make 0 2 :: 64 TSLength)
   \<and> \<not> bytes_ge_chars (ts_length_sub (ts_length_make 5 5) (ts_length_make 5 3) :: 64 TSLength)
   \<and> bytes_ge_chars (ts_length_make 18446744073709551615 1 :: 64 TSLength)
   \<and> \<not> indeterminate (ts_length_make 18446744073709551615 1 :: 64 TSLength)
   \<and> bytes_ge_chars (ts_length_make 1 1 :: 64 TSLength)
   \<and> \<not> indeterminate (ts_length_make 1 1 :: 64 TSLength)
   \<and> ts_length_add (ts_length_make 18446744073709551615 1) (ts_length_make 1 1)
       = (ts_length_make 0 2 :: 64 TSLength)
   \<and> \<not> bytes_ge_chars
        (ts_length_add (ts_length_make 18446744073709551615 1) (ts_length_make 1 1)
          :: 64 TSLength)"
  by (simp add: ts_length_sub_def ts_length_add_def ts_length_make_def Let_def
      bytes_ge_chars_def indeterminate_def)

text \<open>
  C6. Subtraction wraps silently. Read as unsigned integers, the \<open>chars\<close> field of
  \<open>ts_length_sub a b\<close> is the difference of the operands' fields modulo
  \<open>2 ^ LENGTH('a)\<close>, and so is the \<open>bytes\<close> field when neither operand is
  indeterminate. The field that \<open>ts_point_sub\<close> differences (the column on equal lines,
  the line otherwise) wraps the same way. All four functions are total and return a
  plain value: there is no error result to signal and no test for underflow.
\<close>

theorem sub_wraps:
  fixes a b :: "'a::len TSLength" and p1 p2 :: "'a TSPoint"
  shows "uint (chars (ts_length_sub a b))
           = (uint (chars a) - uint (chars b)) mod 2 ^ LENGTH('a)
       \<and> (\<not> indeterminate a \<and> \<not> indeterminate b \<longrightarrow>
            uint (bytes (ts_length_sub a b))
              = (uint (bytes a) - uint (bytes b)) mod 2 ^ LENGTH('a))
       \<and> (line p1 = line p2 \<longrightarrow>
            uint (column (ts_point_sub p1 p2))
              = (uint (column p1) - uint (column p2)) mod 2 ^ LENGTH('a))
       \<and> (line p1 \<noteq> line p2 \<longrightarrow>
            uint (line (ts_point_sub p1 p2))
              = (uint (line p1) - uint (line p2)) mod 2 ^ LENGTH('a))"
  by (simp add: ts_length_sub_sel ts_point_sub_def uint_word_ariths)

text \<open>
  Underflowing inputs at 64 bits: \<open>(1, 1) - (2, 2)\<close> has both fields \<open>2 ^ 64 - 1\<close>;
  \<open>sub (4, 3) (4, 10)\<close> has column \<open>2 ^ 64 - 7\<close>; \<open>sub (2, 10) (4, 3)\<close> has line
  \<open>2 ^ 64 - 2\<close>.
\<close>

theorem sub_wraps_witness:
  "\<not> indeterminate (ts_length_make 1 1 :: 64 TSLength)
   \<and> \<not> indeterminate (ts_length_make 2 2 :: 64 TSLength)
   \<and> uint (chars (ts_length_sub (ts_length_make 1 1) (ts_length_make 2 2) :: 64 TSLength))
       = 18446744073709551615
   \<and> uint (bytes (ts_length_sub (ts_length_make 1 1) (ts_length_make 2 2) :: 64 TSLength))
       = 18446744073709551615
   \<and> line (ts_point_make 4 3 :: 64 TSPoint) = line (ts_point_make 4 10 :: 64 TSPoint)
   \<and> uint (column (ts_point_sub (ts_point_make 4 3) (ts_point_make 4 10) :: 64 TSPoint))
       = 18446744073709551609
   \<and> line (ts_point_make 2 10 :: 64 TSPoint) \<noteq> line (ts_point_make 4 3 :: 64 TSPoint)
   \<and> uint (line (ts_point_sub (ts_point_make 2 10) (ts_point_make 4 3) :: 64 TSPoint))
       = 18446744073709551614"
proof -
  let ?a = "ts_length_make 1 1 :: 64 TSLength"
  let ?b = "ts_length_make 2 2 :: 64 TSLength"
  let ?p = "ts_point_make 4 3 :: 64 TSPoint"
  let ?q = "ts_point_make 4 10 :: 64 TSPoint"
  let ?r = "ts_point_make 2 10 :: 64 TSPoint"
  have na: "\<not> indeterminate ?a" and nb: "\<not> indeterminate ?b"
    by (simp_all add: indeterminate_def ts_length_make_def)
  have same: "line ?p = line ?q" and differ: "line ?r \<noteq> line ?p"
    by (simp_all add: ts_point_make_def)
  have len: "uint (chars (ts_length_sub ?a ?b)) = 18446744073709551615"
    "uint (bytes (ts_length_sub ?a ?b)) = 18446744073709551615"
    using sub_wraps [of ?a ?b ?p ?q] na nb by (simp_all add: ts_length_make_def)
  have col: "uint (column (ts_point_sub ?p ?q)) = 18446744073709551609"
    using sub_wraps [of ?a ?b ?p ?q] same by (simp add: ts_point_make_def)
  have lin: "uint (line (ts_point_sub ?r ?p)) = 18446744073709551614"
    using sub_wraps [of ?a ?b ?r ?p] differ by (simp add: ts_point_make_def)
  from na nb same differ len col lin show ?thesis by simp
qed

text \<open>
  C7. The origin returned by \<open>ts_point_zero\<close> is the point \<open>(line 1, column 1)\<close>; it is
  not \<open>(0, 0)\<close>, and it is the value of \<open>ts_point_make 1 1\<close>.
\<close>

theorem point_origin:
  "(ts_point_zero :: 'a::len TSPoint) = \<lparr>line = 1, column = 1\<rparr>
   \<and> (ts_point_zero :: 'a TSPoint) \<noteq> \<lparr>line = 0, column = 0\<rparr>
   \<and> (ts_point_zero :: 'a TSPoint) = ts_point_make 1 1"
  by (simp add: ts_point_zero_def ts_point_make_def)

text \<open>
  C8. \<open>ts_length_add\<close> is commutative on all lengths, indeterminate operands included:
  the fields are sums and the test for an indeterminate operand is symmetric. The two
  results are equal as values, and \<open>ts_length_eq\<close> accepts them.
\<close>

theorem length_add_commute:
  "ts_length_add a b = ts_length_add b a
   \<and> ts_length_eq (ts_length_add a b) (ts_length_add b a)"
  by (simp add: ts_length_eq_iff ts_length_add_def Let_def add.commute disj_commute)

text \<open>
  C9. Subtracting two determinate lengths can yield the indeterminate marker. At 64 bits
  \<open>a = (5, 5)\<close> and \<open>b = (5, 3)\<close> are non-indeterminate, satisfy \<open>bytes \<ge> chars\<close> and
  \<open>a \<ge> b\<close> component-wise, yet \<open>sub a b = (0, 2)\<close> has \<open>bytes = 0\<close> and \<open>chars > 0\<close>, so
  any later \<open>ts_length_add\<close> or \<open>ts_length_sub\<close> with it forces \<open>bytes\<close> to 0. Such a
  pair exists at every word width.
\<close>

theorem sub_yields_indeterminate:
  "\<not> indeterminate (ts_length_make 5 5 :: 64 TSLength)
   \<and> \<not> indeterminate (ts_length_make 5 3 :: 64 TSLength)
   \<and> bytes_ge_chars (ts_length_make 5 5 :: 64 TSLength)
   \<and> bytes_ge_chars (ts_length_make 5 3 :: 64 TSLength)
   \<and> bytes (ts_length_make 5 3 :: 64 TSLength) \<le> bytes (ts_length_make 5 5 :: 64 TSLength)
   \<and> chars (ts_length_make 5 3 :: 64 TSLength) \<le> chars (ts_length_make 5 5 :: 64 TSLength)
   \<and> bytes (ts_length_sub (ts_length_make 5 5) (ts_length_make 5 3) :: 64 TSLength) = 0
   \<and> chars (ts_length_sub (ts_length_make 5 5) (ts_length_make 5 3) :: 64 TSLength) > 0
   \<and> indeterminate (ts_length_sub (ts_length_make 5 5) (ts_length_make 5 3) :: 64 TSLength)
   \<and> (\<forall>c :: 64 TSLength.
        bytes (ts_length_add (ts_length_sub (ts_length_make 5 5) (ts_length_make 5 3)) c) = 0
        \<and> bytes (ts_length_sub c (ts_length_sub (ts_length_make 5 5) (ts_length_make 5 3))) = 0)
   \<and> (\<exists>a b :: 'a::len TSLength.
        \<not> indeterminate a \<and> \<not> indeterminate b
        \<and> bytes_ge_chars a \<and> bytes_ge_chars b
        \<and> bytes b \<le> bytes a \<and> chars b \<le> chars a
        \<and> bytes (ts_length_sub a b) = 0 \<and> chars (ts_length_sub a b) > 0)"
proof -
  let ?a = "ts_length_make 5 5 :: 64 TSLength"
  let ?b = "ts_length_make 5 3 :: 64 TSLength"
  have operands: "\<not> indeterminate ?a" "\<not> indeterminate ?b"
    "bytes_ge_chars ?a" "bytes_ge_chars ?b" "bytes ?b \<le> bytes ?a" "chars ?b \<le> chars ?a"
    by (simp_all add: indeterminate_def bytes_ge_chars_def ts_length_make_def)
  have fields: "bytes (ts_length_sub ?a ?b) = 0" "chars (ts_length_sub ?a ?b) > 0"
    by (simp_all add: ts_length_sub_def ts_length_make_def Let_def)
  then have marked: "indeterminate (ts_length_sub ?a ?b)"
    by (simp add: indeterminate_def)
  then have later: "\<forall>c. bytes (ts_length_add (ts_length_sub ?a ?b) c) = 0
      \<and> bytes (ts_length_sub c (ts_length_sub ?a ?b)) = 0"
    by (simp add: ts_length_add_sel ts_length_sub_sel)
  let ?u = "ts_length_make 1 1 :: 'a TSLength"
  let ?v = "ts_length_make 1 0 :: 'a TSLength"
  have "\<not> indeterminate ?u \<and> \<not> indeterminate ?v
      \<and> bytes_ge_chars ?u \<and> bytes_ge_chars ?v
      \<and> bytes ?v \<le> bytes ?u \<and> chars ?v \<le> chars ?u
      \<and> bytes (ts_length_sub ?u ?v) = 0 \<and> chars (ts_length_sub ?u ?v) > 0"
    by (simp add: indeterminate_def bytes_ge_chars_def ts_length_make_def
        ts_length_sub_def Let_def)
  then have every_width: "\<exists>a b :: 'a TSLength.
        \<not> indeterminate a \<and> \<not> indeterminate b
        \<and> bytes_ge_chars a \<and> bytes_ge_chars b
        \<and> bytes b \<le> bytes a \<and> chars b \<le> chars a
        \<and> bytes (ts_length_sub a b) = 0 \<and> chars (ts_length_sub a b) > 0"
    by blast
  from operands fields marked later every_width show ?thesis by simp
qed

text \<open>
  C10. The origin \<open>ts_point_zero\<close> is not neutral for \<open>ts_point_add\<close>: adding it moves
  every point \<open>p\<close> to \<open>(line p + 1, 1)\<close>, which is never \<open>p\<close>. The neutral displacement
  on the right is \<open>ts_point_make 0 0\<close>.
\<close>

theorem point_zero_not_identity:
  "ts_point_add p ts_point_zero = \<lparr>line = line p + 1, column = 1\<rparr>
   \<and> line (ts_point_add p ts_point_zero) = line p + 1
   \<and> column (ts_point_add p ts_point_zero) = 1
   \<and> ts_point_add p ts_point_zero \<noteq> p
   \<and> ts_point_add p (ts_point_make 0 0) = p"
proof -
  have moved: "ts_point_add p ts_point_zero = \<lparr>line = line p + 1, column = 1\<rparr>"
    by (simp add: ts_point_add_def ts_point_zero_def Let_def)
  have "line (ts_point_add p ts_point_zero) \<noteq> line p"
    by (simp add: moved)
  then have differs: "ts_point_add p ts_point_zero \<noteq> p"
    by auto
  have neutral: "ts_point_add p (ts_point_make 0 0) = p"
    by (cases p) (simp add: ts_point_add_def ts_point_make_def Let_def)
  from moved differs neutral show ?thesis by simp
qed

end
